theory Spec2Isabelle
  imports Main
begin

section \<open>Exceptions\<close>

text \<open>
  The scripts define no exception class of their own.  What can be raised during a run is
  whatever the libraries raise: an error of a hosted service or a widget (\<open>SdkError\<close>),
  and the errors of template handling (\<open>KeyError\<close>, \<open>ValueError\<close>).  \<open>NotModelled\<close>
  marks template syntax that the formatter below does not interpret.
\<close>

datatype exn =
    SdkError string
  | KeyError string
  | ValueError string
  | NotModelled string

section \<open>Prompt templates\<close>

text \<open>
  \<open>PromptTemplate\<close> and \<open>ChatPromptTemplate\<close> are classes of \<open>langchain_core\<close>; the
  repository only calls them.  Both scripts use the default template format, Python's
  format-string syntax: \<open>{name}\<close> is a replacement field, \<open>{{\<close> and \<open>}}\<close> are escaped
  braces, everything else is literal text.  The formatter here interprets exactly that
  fragment.  A replacement field whose name is not a plain identifier (a positional
  index, attribute or item access, a conversion or a format specification) is answered
  with \<open>NotModelled\<close>; the templates of the repository contain none.
\<close>

datatype piece = Lit char | Placeholder string

definition ident_char :: "char \<Rightarrow> bool" where
  "ident_char c =
     (c \<in> set ''abcdefghijklmnopqrstuvwxyzABCDEFGHIJKLMNOPQRSTUVWXYZ0123456789_'')"

definition plain_identifier :: "string \<Rightarrow> bool" where
  "plain_identifier n = (n \<noteq> [] \<and> hd n \<notin> set ''0123456789'' \<and> list_all ident_char n)"

definition cons_piece :: "piece \<Rightarrow> exn + piece list \<Rightarrow> exn + piece list" where
  "cons_piece p r = (case r of Inl e \<Rightarrow> Inl e | Inr ps \<Rightarrow> Inr (p # ps))"

text \<open>
  The scanner.  Its first argument is \<open>None\<close> in literal text and \<open>Some acc\<close> inside a
  replacement field, \<open>acc\<close> being the field name read so far, reversed.
\<close>

fun scan :: "string option \<Rightarrow> string \<Rightarrow> exn + piece list" where
  "scan None [] = Inr []"
| "scan (Some acc) [] = Inl (ValueError ''expected } before end of string'')"
| "scan None (c # cs) =
     (if c = CHR ''{'' then
        (case cs of
           [] \<Rightarrow> Inl (ValueError ''Single { encountered in format string'')
         | d # ds \<Rightarrow>
             if d = CHR ''{'' then cons_piece (Lit c) (scan None ds)
             else scan (Some []) cs)
      else if c = CHR ''}'' then
        (case cs of
           [] \<Rightarrow> Inl (ValueError ''Single } encountered in format string'')
         | d # ds \<Rightarrow>
             if d = CHR ''}'' then cons_piece (Lit c) (scan None ds)
             else Inl (ValueError ''Single } encountered in format string''))
      else cons_piece (Lit c) (scan None cs))"
| "scan (Some acc) (c # cs) =
     (if c = CHR ''}'' then
        (if plain_identifier (rev acc) then cons_piece (Placeholder (rev acc)) (scan None cs)
         else Inl (NotModelled (rev acc)))
      else scan (Some (c # acc)) cs)"

definition parse_template :: "string \<Rightarrow> exn + piece list" where
  "parse_template t = scan None t"

fun field_names :: "piece list \<Rightarrow> string list" where
  "field_names [] = []"
| "field_names (Lit c # ps) = field_names ps"
| "field_names (Placeholder n # ps) = n # field_names ps"

text \<open>
  Substitution is one pass from left to right: the first field without a value raises
  \<open>KeyError\<close>, and an inserted value is never scanned again.  A Python dict is an
  association list here; the dict literals of the scripts have distinct keys.
\<close>

type_synonym pydict = "(string \<times> string) list"

fun render :: "pydict \<Rightarrow> piece list \<Rightarrow> exn + string" where
  "render d [] = Inr []"
| "render d (Lit c # ps) =
     (case render d ps of Inl e \<Rightarrow> Inl e | Inr s \<Rightarrow> Inr (c # s))"
| "render d (Placeholder n # ps) =
     (case map_of d n of
        None \<Rightarrow> Inl (KeyError n)
      | Some v \<Rightarrow> (case render d ps of Inl e \<Rightarrow> Inl e | Inr s \<Rightarrow> Inr (v @ s)))"

subsection \<open>PromptTemplate\<close>

record prompt_template =
  pt_pieces :: "piece list"
  pt_input_variables :: "string list"

text \<open>
  Construction parses the template.  With \<open>validate_template=True\<close> the declared
  \<open>input_variables\<close> are compared with the placeholders; the script's own comment
  describes the check: an error "if placeholders are missed or extra added".
\<close>

definition PromptTemplate :: "string \<Rightarrow> string list \<Rightarrow> bool \<Rightarrow> exn + prompt_template" where
  "PromptTemplate t input_variables validate_template =
     (case parse_template t of
        Inl e \<Rightarrow> Inl e
      | Inr ps \<Rightarrow>
          if validate_template \<and> set (field_names ps) \<noteq> set input_variables
          then Inl (ValueError ''Invalid prompt schema'')
          else Inr \<lparr>pt_pieces = ps, pt_input_variables = remdups (field_names ps)\<rparr>)"

definition missing_keys :: "string list \<Rightarrow> pydict \<Rightarrow> string list" where
  "missing_keys vars d = filter (\<lambda>v. map_of d v = None) vars"

text \<open>\<open>template.invoke(d)\<close>: every input variable needs a key; further keys are ignored.\<close>

definition format_prompt :: "prompt_template \<Rightarrow> pydict \<Rightarrow> exn + string" where
  "format_prompt pt d =
     (case missing_keys (pt_input_variables pt) d of
        [] \<Rightarrow> render d (pt_pieces pt)
      | v # vs \<Rightarrow> Inl (KeyError v))"

subsection \<open>ChatPromptTemplate\<close>

datatype message = SystemMessage string | HumanMessage string | AIMessage string

text \<open>A chat template is a list of \<open>(role, template)\<close> pairs, the role given as a string.\<close>

datatype message_template = MessageTemplate "string \<Rightarrow> message" "piece list"

definition message_class :: "string \<Rightarrow> exn + (string \<Rightarrow> message)" where
  "message_class r =
     (if r = ''system'' then Inr SystemMessage
      else if r = ''human'' \<or> r = ''user'' then Inr HumanMessage
      else if r = ''ai'' \<or> r = ''assistant'' then Inr AIMessage
      else Inl (NotModelled r))"

fun ChatPromptTemplate :: "(string \<times> string) list \<Rightarrow> exn + message_template list" where
  "ChatPromptTemplate [] = Inr []"
| "ChatPromptTemplate ((r, t) # ms) =
     (case message_class r of
        Inl e \<Rightarrow> Inl e
      | Inr k \<Rightarrow>
          (case parse_template t of
             Inl e \<Rightarrow> Inl e
           | Inr ps \<Rightarrow>
               (case ChatPromptTemplate ms of
                  Inl e \<Rightarrow> Inl e
                | Inr mts \<Rightarrow> Inr (MessageTemplate k ps # mts))))"

fun chat_variables :: "message_template list \<Rightarrow> string list" where
  "chat_variables [] = []"
| "chat_variables (MessageTemplate k ps # mts) = field_names ps @ chat_variables mts"

fun format_messages :: "message_template list \<Rightarrow> pydict \<Rightarrow> exn + message list" where
  "format_messages [] d = Inr []"
| "format_messages (MessageTemplate k ps # mts) d =
     (case render d ps of
        Inl e \<Rightarrow> Inl e
      | Inr s \<Rightarrow>
          (case format_messages mts d of
             Inl e \<Rightarrow> Inl e
           | Inr msgs \<Rightarrow> Inr (k s # msgs)))"

definition format_chat_prompt :: "message_template list \<Rightarrow> pydict \<Rightarrow> exn + message list" where
  "format_chat_prompt mts d =
     (case missing_keys (chat_variables mts) d of
        [] \<Rightarrow> format_messages mts d
      | v # vs \<Rightarrow> Inl (KeyError v))"

section \<open>Runs: calls, events and the world\<close>

text \<open>
  A script is a sequence of calls into libraries.  A run is recorded as the list of the
  calls it made, in order, each with the way it ended: it returned (\<open>Call\<close>) or it raised
  (\<open>Raise\<close>).  Keyword arguments are kept as they are written in the source.
\<close>

type_synonym kwargs = "(string \<times> string) list"

datatype printed = PStr string | PChatPromptValue "message list"

datatype call =
    LoadDotenv
  | Print printed
  | NewChatModel kwargs
  | NewEmbeddings kwargs
  | ChatInvoke kwargs string
  | EmbedDocuments kwargs "string list"
  | NewPromptTemplate string "string list" bool
  | PromptInvoke pydict
  | NewChatPromptTemplate "(string \<times> string) list"
  | ChatPromptInvoke pydict
  | StHeader string
  | StTextInput string
  | StSelectbox string "string list"
  | StButton string
  | StWrite string

datatype event = Call call | Raise call exn

record outcome =
  trace :: "event list"
  raised :: "exn option"

text \<open>
  The world is everything a run cannot decide by itself: which library call fails and
  with what, what the hosted chat model answers to a prompt, what the hosted embedding
  model returns (a value of type \<open>'v\<close>, a list of float vectors in Python) and how
  \<open>str\<close> renders it, and what the user of the web form typed, selected and clicked.
\<close>

record 'v world =
  raises :: "call \<Rightarrow> exn option"
  chat_response :: "kwargs \<Rightarrow> string \<Rightarrow> string"
  embed_response :: "kwargs \<Rightarrow> string list \<Rightarrow> 'v"
  py_str :: "'v \<Rightarrow> string"
  text_value :: "string \<Rightarrow> string"
  selected :: "string \<Rightarrow> nat"
  clicked :: "string \<Rightarrow> bool"

subsection \<open>Sequencing with exceptions\<close>

text \<open>
  A statement takes the trace so far and gives the extended trace together with its
  value or the exception that ended it.  No script contains \<open>try\<close>, so sequencing
  (\<open>py_bind\<close>) is the only combinator: an exception skips everything after it.
\<close>

type_synonym 'a py = "event list \<Rightarrow> event list \<times> (exn + 'a)"

definition py_bind :: "'a py \<Rightarrow> ('a \<Rightarrow> 'b py) \<Rightarrow> 'b py" where
  "py_bind m f tr =
     (case m tr of
        (tr', Inl e) \<Rightarrow> (tr', Inl e)
      | (tr', Inr x) \<Rightarrow> f x tr')"

definition py_pass :: "unit py" where
  "py_pass tr = (tr, Inr ())"

definition perform :: "call \<Rightarrow> exn + 'a \<Rightarrow> 'a py" where
  "perform c r tr =
     (case r of
        Inl e \<Rightarrow> (tr @ [Raise c e], Inl e)
      | Inr x \<Rightarrow> (tr @ [Call c], Inr x))"

definition run :: "'a py \<Rightarrow> outcome" where
  "run m =
     (case m [] of
        (tr, Inl e) \<Rightarrow> \<lparr>trace = tr, raised = Some e\<rparr>
      | (tr, Inr x) \<Rightarrow> \<lparr>trace = tr, raised = None\<rparr>)"

definition answer :: "'v world \<Rightarrow> call \<Rightarrow> 'a \<Rightarrow> exn + 'a" where
  "answer w c x = (case raises w c of Some e \<Rightarrow> Inl e | None \<Rightarrow> Inr x)"

subsection \<open>The library calls the scripts make\<close>

definition load_dotenv :: "'v world \<Rightarrow> unit py" where
  "load_dotenv w = perform LoadDotenv (answer w LoadDotenv ())"

definition print :: "printed \<Rightarrow> unit py" where
  "print v = perform (Print v) (Inr ())"

text \<open>A client object is represented by the keyword arguments it was built with.\<close>

definition ChatGoogleGenerativeAI :: "'v world \<Rightarrow> kwargs \<Rightarrow> kwargs py" where
  "ChatGoogleGenerativeAI w kw = perform (NewChatModel kw) (answer w (NewChatModel kw) kw)"

definition model_invoke :: "'v world \<Rightarrow> kwargs \<Rightarrow> string \<Rightarrow> string py" where
  "model_invoke w model p =
     perform (ChatInvoke model p) (answer w (ChatInvoke model p) (chat_response w model p))"

definition GoogleGenerativeAIEmbeddings :: "'v world \<Rightarrow> kwargs \<Rightarrow> kwargs py" where
  "GoogleGenerativeAIEmbeddings w kw =
     perform (NewEmbeddings kw) (answer w (NewEmbeddings kw) kw)"

definition embed_documents :: "'v world \<Rightarrow> kwargs \<Rightarrow> string list \<Rightarrow> 'v py" where
  "embed_documents w embedding docs =
     perform (EmbedDocuments embedding docs)
       (answer w (EmbedDocuments embedding docs) (embed_response w embedding docs))"

definition new_PromptTemplate :: "string \<Rightarrow> string list \<Rightarrow> bool \<Rightarrow> prompt_template py" where
  "new_PromptTemplate t ivs v = perform (NewPromptTemplate t ivs v) (PromptTemplate t ivs v)"

definition template_invoke :: "prompt_template \<Rightarrow> pydict \<Rightarrow> string py" where
  "template_invoke pt d = perform (PromptInvoke d) (format_prompt pt d)"

definition new_ChatPromptTemplate :: "(string \<times> string) list \<Rightarrow> message_template list py" where
  "new_ChatPromptTemplate ms = perform (NewChatPromptTemplate ms) (ChatPromptTemplate ms)"

definition chat_template_invoke :: "message_template list \<Rightarrow> pydict \<Rightarrow> message list py" where
  "chat_template_invoke ct d = perform (ChatPromptInvoke d) (format_chat_prompt ct d)"

text \<open>\<open>chain = template | model\<close>: invoking the chain formats the prompt and sends it.\<close>

definition chain_invoke :: "'v world \<Rightarrow> prompt_template \<Rightarrow> kwargs \<Rightarrow> pydict \<Rightarrow> string py" where
  "chain_invoke w pt model d =
     py_bind (template_invoke pt d) (\<lambda>prompt. model_invoke w model prompt)"

definition st_header :: "'v world \<Rightarrow> string \<Rightarrow> unit py" where
  "st_header w s = perform (StHeader s) (answer w (StHeader s) ())"

definition st_text_input :: "'v world \<Rightarrow> string \<Rightarrow> string py" where
  "st_text_input w label =
     perform (StTextInput label) (answer w (StTextInput label) (text_value w label))"

text \<open>
  A select box returns the option the user selected.  The form only offers the listed
  options, so the selection is a position in the list; a world whose position is out of
  range is no run of the form, and the call raises there.
\<close>

definition st_selectbox :: "'v world \<Rightarrow> string \<Rightarrow> string list \<Rightarrow> string py" where
  "st_selectbox w label options =
     perform (StSelectbox label options)
       (case raises w (StSelectbox label options) of
          Some e \<Rightarrow> Inl e
        | None \<Rightarrow>
            if selected w label < length options
            then Inr (options ! selected w label)
            else Inl (SdkError ''selectbox: no such option''))"

definition st_button :: "'v world \<Rightarrow> string \<Rightarrow> bool py" where
  "st_button w label =
     perform (StButton label) (answer w (StButton label) (clicked w label))"

definition st_write :: "'v world \<Rightarrow> string \<Rightarrow> unit py" where
  "st_write w s = perform (StWrite s) (answer w (StWrite s) ())"

section \<open>The five scripts\<close>

subsection \<open>01_LangChainModels/ChatModels/googleGeminiChatModelDemo.py\<close>

definition googleGeminiChatModelDemo :: "'v world \<Rightarrow> outcome" where
  "googleGeminiChatModelDemo w = run (
     py_bind (load_dotenv w) (\<lambda>u.
     py_bind (print (PStr ''Started'')) (\<lambda>u.
     py_bind (ChatGoogleGenerativeAI w [(''model'', ''gemini-2.5-flash'')]) (\<lambda>model.
     py_bind (model_invoke w model ''Tell me a poem of 5 lines on Football'') (\<lambda>result.
     print (PStr result))))))"

subsection \<open>01_LangChainModels/EmbeddingModels/embedd_docs.py\<close>

definition documents :: "string list" where
  "documents =
     [''Delhi is the capital of India'',
      ''Kolkata is the capital of West Bengal'',
      ''Paris is the capital of France'']"

definition embedd_docs :: "'v world \<Rightarrow> outcome" where
  "embedd_docs w = run (
     py_bind (load_dotenv w) (\<lambda>u.
     py_bind (print (PStr ''Working on Embeddings'')) (\<lambda>u.
     py_bind (GoogleGenerativeAIEmbeddings w [(''model'', ''models/gemini-embedding-001'')])
       (\<lambda>embedding.
     py_bind (embed_documents w embedding documents) (\<lambda>result.
     print (PStr (''Query Result: '' @ py_str w result)))))))"

subsection \<open>02_Prompts/chatPromptTemplate.py\<close>

definition chat_template_source :: "(string \<times> string) list" where
  "chat_template_source =
     [(''system'', ''You are a helpful {domain} expert''),
      (''human'', ''Explain in simple terms, what is {topic}'')]"

definition chatPromptTemplate :: "'v world \<Rightarrow> outcome" where
  "chatPromptTemplate w = run (
     py_bind (new_ChatPromptTemplate chat_template_source) (\<lambda>chat_template.
     py_bind (chat_template_invoke chat_template
                [(''domain'', ''cricket''), (''topic'', ''Dusra'')]) (\<lambda>prompt.
     print (PChatPromptValue prompt))))"

subsection \<open>02_Prompts/simpleUIApplication.py\<close>

definition simpleUIApplication :: "'v world \<Rightarrow> outcome" where
  "simpleUIApplication w = run (
     py_bind (load_dotenv w) (\<lambda>u.
     py_bind (st_header w ''Simple Gemini Chat Application'') (\<lambda>u.
     py_bind (st_text_input w ''Please enter your query for Gemini....'') (\<lambda>user_input.
     py_bind (ChatGoogleGenerativeAI w [(''model'', ''gemini-2.5-flash'')]) (\<lambda>model.
     py_bind (st_button w ''Go.....'') (\<lambda>pressed.
     if pressed then
       py_bind (model_invoke w model user_input) (\<lambda>result.
       st_write w result)
     else py_pass))))))"

subsection \<open>02_Prompts/dynamicPromptbasedApplication.py\<close>

definition nl :: char where
  "nl = CHR 0x0A"

definition dq :: char where
  "dq = CHR 0x22"

text \<open>
  The template string, cut at its three placeholders so that the text between them has a
  name.  It starts with the line break after the opening quotes.
\<close>

definition before_paper :: string where
  "before_paper = concat
     [[nl], ''Please summarize the research paper titled '', [dq]]"

definition before_style :: string where
  "before_style = concat
     [[dq], '' with the following specifications:'', [nl], ''Explanation Style: '']"

definition before_length :: string where
  "before_length = concat [''  '', [nl], ''Explanation Length: '']"

definition after_length :: string where
  "after_length = concat
     [''  '', [nl],
      ''1. Mathematical Details:  '', [nl],
      ''   - Include relevant mathematical equations if present in the paper.  '', [nl],
      ''   - Explain the mathematical concepts using simple, intuitive code snippets where applicable.  '', [nl],
      ''2. Analogies:  '', [nl],
      ''   - Use relatable analogies to simplify complex ideas.  '', [nl],
      ''If certain information is not available in the paper, respond with: '', [dq],
      ''Insufficient information available'', [dq], '' instead of guessing.  '', [nl],
      ''Ensure the summary is clear, accurate, and aligned with the provided style and length.'', [nl]]"

definition template_text :: string where
  "template_text =
     before_paper @ ''{paper_input}'' @ before_style @ ''{style_input}'' @
     before_length @ ''{length_input}'' @ after_length"

definition input_variables :: "string list" where
  "input_variables = [''paper_input'', ''style_input'', ''length_input'']"

definition paper_options :: "string list" where
  "paper_options =
     [''Attention Is All You Need'',
      ''BERT: Pre-training of Deep Bidirectional Transformers'',
      ''GPT-3: Language Models are Few-Shot Learners'',
      ''Diffusion Models Beat GANs on Image Synthesis'']"

definition style_options :: "string list" where
  "style_options = [''Beginner-Friendly'', ''Technical'', ''Code-Oriented'', ''Mathematical'']"

definition length_options :: "string list" where
  "length_options =
     [''Short (1-2 paragraphs)'', ''Medium (3-5 paragraphs)'', ''Long (detailed explanation)'']"

definition dynamicPromptbasedApplication :: "'v world \<Rightarrow> outcome" where
  "dynamicPromptbasedApplication w = run (
     py_bind (new_PromptTemplate template_text input_variables True) (\<lambda>template.
     py_bind (load_dotenv w) (\<lambda>u.
     py_bind (ChatGoogleGenerativeAI w []) (\<lambda>model.
     py_bind (st_header w ''Reasearch Tool'') (\<lambda>u.
     py_bind (st_selectbox w ''Select Research Paper Name'' paper_options) (\<lambda>paper_input.
     py_bind (st_selectbox w ''Select Explanation Style'' style_options) (\<lambda>style_input.
     py_bind (st_selectbox w ''Select Explanation Length'' length_options) (\<lambda>length_input.
     py_bind (st_button w ''Summarize'') (\<lambda>pressed.
     if pressed then
       py_bind (chain_invoke w template model
                  [(''paper_input'', paper_input),
                   (''style_input'', style_input),
                   (''length_input'', length_input)]) (\<lambda>result.
       st_write w result)
     else py_pass)))))))))"

section \<open>Properties of runs\<close>

text \<open>
  The parsed form of the template of \<open>dynamicPromptbasedApplication.py\<close>, and the prompt
  text it yields for a paper, a style and a length.
\<close>

definition parsed_template :: prompt_template where
  "parsed_template =
     \<lparr>pt_pieces =
        map Lit before_paper @ [Placeholder ''paper_input''] @
        map Lit before_style @ [Placeholder ''style_input''] @
        map Lit before_length @ [Placeholder ''length_input''] @
        map Lit after_length,
      pt_input_variables = input_variables\<rparr>"

definition summary_prompt :: "string \<Rightarrow> string \<Rightarrow> string \<Rightarrow> string" where
  "summary_prompt p s l =
     before_paper @ p @ before_style @ s @ before_length @ l @ after_length"

definition get_template_variables :: "string \<Rightarrow> exn + string list" where
  "get_template_variables t =
     (case parse_template t of Inl e \<Rightarrow> Inl e | Inr ps \<Rightarrow> Inr (field_names ps))"

subsection \<open>Hosted calls and what is shown\<close>

text \<open>
  The reply of a hosted model as the script receives it: the content of the chat
  model's answer, or the rendering of the embedding vectors.
\<close>

fun hosted_reply :: "'v world \<Rightarrow> call \<Rightarrow> string option" where
  "hosted_reply w (ChatInvoke kw p) = Some (chat_response w kw p)"
| "hosted_reply w (EmbedDocuments kw ds) = Some (py_str w (embed_response w kw ds))"
| "hosted_reply w c = None"

fun shown_text :: "call \<Rightarrow> string option" where
  "shown_text (Print (PStr s)) = Some s"
| "shown_text (StWrite s) = Some s"
| "shown_text c = None"

definition ends_with :: "string \<Rightarrow> string \<Rightarrow> bool" where
  "ends_with s r = (length r \<le> length s \<and> drop (length s - length r) s = r)"

fun displays :: "string \<Rightarrow> event \<Rightarrow> bool" where
  "displays r (Call c) = (case shown_text c of Some s \<Rightarrow> ends_with s r | None \<Rightarrow> False)"
| "displays r (Raise c e) = False"

fun hosted_event :: "event \<Rightarrow> bool" where
  "hosted_event (Call (ChatInvoke kw p)) = True"
| "hosted_event (Raise (ChatInvoke kw p) e) = True"
| "hosted_event (Call (EmbedDocuments kw ds)) = True"
| "hosted_event (Raise (EmbedDocuments kw ds) e) = True"
| "hosted_event ev = False"

text \<open>
  \<open>shows_reply w tr\<close>: some hosted call of the trace returned, and a later \<open>print\<close> or
  \<open>st.write\<close> shows a text that ends with its reply.
\<close>

fun shows_reply :: "'v world \<Rightarrow> event list \<Rightarrow> bool" where
  "shows_reply w [] = False"
| "shows_reply w (Call c # evs) =
     ((case hosted_reply w c of Some r \<Rightarrow> list_ex (displays r) evs | None \<Rightarrow> False)
      \<or> shows_reply w evs)"
| "shows_reply w (Raise c e # evs) = shows_reply w evs"

subsection \<open>Template calls\<close>

fun template_call_ok :: "event \<Rightarrow> bool" where
  "template_call_ok (Call (PromptInvoke d)) = (map fst d = input_variables)"
| "template_call_ok (Raise (PromptInvoke d) e) = False"
| "template_call_ok (Raise (NewPromptTemplate t ivs v) e) = False"
| "template_call_ok ev = True"

fun is_prompt_invoke :: "event \<Rightarrow> bool" where
  "is_prompt_invoke (Call (PromptInvoke d)) = True"
| "is_prompt_invoke (Raise (PromptInvoke d) e) = True"
| "is_prompt_invoke ev = False"

text \<open>
  What reaches the template and the model: the dict given to the template has the three
  keys with values from the three option lists, and the prompt sent to the model is the
  template filled with such values.
\<close>

definition selectable_dict :: "pydict \<Rightarrow> bool" where
  "selectable_dict d =
     list_ex (\<lambda>p. list_ex (\<lambda>s. list_ex (\<lambda>l.
        d = [(''paper_input'', p), (''style_input'', s), (''length_input'', l)])
        length_options) style_options) paper_options"

definition selectable_prompt :: "string \<Rightarrow> bool" where
  "selectable_prompt t =
     list_ex (\<lambda>p. list_ex (\<lambda>s. list_ex (\<lambda>l. t = summary_prompt p s l)
        length_options) style_options) paper_options"

fun call_of :: "event \<Rightarrow> call" where
  "call_of (Call c) = c"
| "call_of (Raise c e) = c"

fun from_selectboxes :: "call \<Rightarrow> bool" where
  "from_selectboxes (PromptInvoke d) = selectable_dict d"
| "from_selectboxes (ChatInvoke kw t) = selectable_prompt t"
| "from_selectboxes c = True"

subsection \<open>Credentials\<close>

fun client_kwargs :: "call \<Rightarrow> kwargs option" where
  "client_kwargs (NewChatModel kw) = Some kw"
| "client_kwargs (NewEmbeddings kw) = Some kw"
| "client_kwargs c = None"

definition constructs_client :: "event \<Rightarrow> bool" where
  "constructs_client ev = (client_kwargs (call_of ev) \<noteq> None)"

text \<open>
  \<open>dotenv_first loaded tr\<close>: every client constructor of \<open>tr\<close> comes after a
  \<open>load_dotenv()\<close> that returned (\<open>loaded\<close> says whether one came before \<open>tr\<close>).
\<close>

fun dotenv_first :: "bool \<Rightarrow> event list \<Rightarrow> bool" where
  "dotenv_first loaded [] = True"
| "dotenv_first loaded (ev # evs) =
     (if ev = Call LoadDotenv then dotenv_first True evs
      else (loaded \<or> client_kwargs (call_of ev) = None) \<and> dotenv_first loaded evs)"

text \<open>The only keyword a client is ever constructed with is \<open>model\<close>.\<close>

definition only_model_keyword :: "event \<Rightarrow> bool" where
  "only_model_keyword ev =
     (case client_kwargs (call_of ev) of
        None \<Rightarrow> True
      | Some kw \<Rightarrow> list_all (\<lambda>k. k = ''model'') (map fst kw))"

subsection \<open>Sample worlds\<close>

text \<open>
  A world in which no call fails, both hosted models answer \<open>reply\<close>, the user typed
  \<open>hello\<close>, left every select box at its first option and pressed every button.
\<close>

definition sample_world :: "string \<Rightarrow> string world" where
  "sample_world reply =
     \<lparr>raises = (\<lambda>c. None),
      chat_response = (\<lambda>kw p. reply),
      embed_response = (\<lambda>kw ds. reply),
      py_str = (\<lambda>v. v),
      text_value = (\<lambda>label. ''hello''),
      selected = (\<lambda>label. 0),
      clicked = (\<lambda>label. True)\<rparr>"

section \<open>The formatter on the templates of the repository\<close>

lemma scan_text:
  "CHR ''{'' \<notin> set s \<Longrightarrow> CHR ''}'' \<notin> set s \<Longrightarrow>
   scan None (s @ r) = (case scan None r of Inl e \<Rightarrow> Inl e | Inr ps \<Rightarrow> Inr (map Lit s @ ps))"
  by (induction s) (auto simp: cons_piece_def split: sum.splits)

lemma scan_name:
  "CHR ''}'' \<notin> set n \<Longrightarrow>
   scan (Some acc) (n @ CHR ''}'' # r) =
     (if plain_identifier (rev acc @ n) then cons_piece (Placeholder (rev acc @ n)) (scan None r)
      else Inl (NotModelled (rev acc @ n)))"
  by (induction n arbitrary: acc) auto

lemma scan_placeholder:
  assumes "plain_identifier n"
  shows "scan None (CHR ''{'' # n @ CHR ''}'' # r) = cons_piece (Placeholder n) (scan None r)"
proof -
  from assms obtain c cs where n: "n = c # cs" and c: "ident_char c" and cs: "list_all ident_char cs"
    by (cases n) (auto simp: plain_identifier_def)
  have "\<not> ident_char (CHR ''}'')" "\<not> ident_char (CHR ''{'')" by (simp_all add: ident_char_def)
  with c cs n have nb: "CHR ''}'' \<notin> set n" and c1: "c \<noteq> CHR ''{''"
    by (auto simp: list_all_iff)
  from c1 n have "scan None (CHR ''{'' # n @ CHR ''}'' # r) = scan (Some []) (n @ CHR ''}'' # r)"
    by simp
  with scan_name[OF nb, of "[]" r] assms show ?thesis by simp
qed

lemma render_text:
  "render d (map Lit s @ ps) = (case render d ps of Inl e \<Rightarrow> Inl e | Inr t \<Rightarrow> Inr (s @ t))"
  by (induction s) (auto split: sum.splits)

lemma brace_free:
  "CHR ''{'' \<notin> set before_paper" "CHR ''}'' \<notin> set before_paper"
  "CHR ''{'' \<notin> set before_style" "CHR ''}'' \<notin> set before_style"
  "CHR ''{'' \<notin> set before_length" "CHR ''}'' \<notin> set before_length"
  "CHR ''{'' \<notin> set after_length" "CHR ''}'' \<notin> set after_length"
  by (simp_all add: before_paper_def before_style_def before_length_def after_length_def nl_def dq_def)

lemma names_plain:
  "plain_identifier ''paper_input''" "plain_identifier ''style_input''" "plain_identifier ''length_input''"
  by (simp_all add: plain_identifier_def ident_char_def)

lemma parse_template_text:
  "parse_template template_text = Inr (pt_pieces parsed_template)"
proof -
  have e: "scan None [] = Inr []" by simp
  have a: "scan None after_length = Inr (map Lit after_length)"
    using scan_text[OF brace_free(7,8), of "[]"] by simp
  have "scan None (CHR ''{'' # ''length_input'' @ CHR ''}'' # after_length) = Inr (Placeholder ''length_input'' # map Lit after_length)"
    by (simp only: scan_placeholder[OF names_plain(3)] a cons_piece_def sum.case)
  then have b: "scan None (''{length_input}'' @ after_length) = Inr (Placeholder ''length_input'' # map Lit after_length)" by simp
  have c: "scan None (before_length @ ''{length_input}'' @ after_length) = Inr (map Lit before_length @ Placeholder ''length_input'' # map Lit after_length)"
    by (simp only: scan_text[OF brace_free(5,6)] b sum.case)
  have "scan None (CHR ''{'' # ''style_input'' @ CHR ''}'' # before_length @ ''{length_input}'' @ after_length) = Inr (Placeholder ''style_input'' # map Lit before_length @ Placeholder ''length_input'' # map Lit after_length)"
    by (simp only: scan_placeholder[OF names_plain(2)] c cons_piece_def sum.case)
  then have d: "scan None (''{style_input}'' @ before_length @ ''{length_input}'' @ after_length) = Inr (Placeholder ''style_input'' # map Lit before_length @ Placeholder ''length_input'' # map Lit after_length)" by simp
  have f: "scan None (before_style @ ''{style_input}'' @ before_length @ ''{length_input}'' @ after_length) = Inr (map Lit before_style @ Placeholder ''style_input'' # map Lit before_length @ Placeholder ''length_input'' # map Lit after_length)"
    by (simp only: scan_text[OF brace_free(3,4)] d sum.case)
  have "scan None (CHR ''{'' # ''paper_input'' @ CHR ''}'' # before_style @ ''{style_input}'' @ before_length @ ''{length_input}'' @ after_length) = Inr (Placeholder ''paper_input'' # map Lit before_style @ Placeholder ''style_input'' # map Lit before_length @ Placeholder ''length_input'' # map Lit after_length)"
    by (simp only: scan_placeholder[OF names_plain(1)] f cons_piece_def sum.case)
  then have g: "scan None (''{paper_input}'' @ before_style @ ''{style_input}'' @ before_length @ ''{length_input}'' @ after_length) = Inr (Placeholder ''paper_input'' # map Lit before_style @ Placeholder ''style_input'' # map Lit before_length @ Placeholder ''length_input'' # map Lit after_length)" by simp
  have "scan None template_text = Inr (map Lit before_paper @ Placeholder ''paper_input'' # map Lit before_style @ Placeholder ''style_input'' # map Lit before_length @ Placeholder ''length_input'' # map Lit after_length)"
    unfolding template_text_def by (simp only: scan_text[OF brace_free(1,2)] g sum.case)
  then show ?thesis by (simp add: parse_template_def parsed_template_def)
qed

lemma field_names_text: "field_names (map Lit s @ ps) = field_names ps"
  by (induction s) auto

lemma field_names_lits: "field_names (map Lit s) = []"
  by (induction s) auto

lemma render_lits: "render d (map Lit s) = Inr s"
  by (induction s) auto

lemma PromptTemplate_text:
  "PromptTemplate template_text input_variables True = Inr parsed_template"
  by (simp add: PromptTemplate_def parse_template_text)
     (simp add: parsed_template_def field_names_text field_names_lits input_variables_def)

lemma format_summary:
  "format_prompt parsed_template [(''paper_input'', p), (''style_input'', s), (''length_input'', l)]
     = Inr (summary_prompt p s l)"
  by (simp add: format_prompt_def missing_keys_def parsed_template_def input_variables_def
        render_text render_lits summary_prompt_def)

section \<open>The runs of the scripts\<close>

lemmas py_defs =
  run_def py_bind_def py_pass_def perform_def answer_def load_dotenv_def print_def
  ChatGoogleGenerativeAI_def model_invoke_def GoogleGenerativeAIEmbeddings_def
  embed_documents_def new_PromptTemplate_def template_invoke_def new_ChatPromptTemplate_def
  chat_template_invoke_def chain_invoke_def st_header_def st_text_input_def st_selectbox_def
  st_button_def st_write_def

lemmas chat_template_defs =
  chat_template_source_def message_class_def parse_template_def cons_piece_def
  plain_identifier_def ident_char_def format_chat_prompt_def missing_keys_def

lemma chatPromptTemplate_run:
  "chatPromptTemplate w =
     \<lparr>trace =
        [Call (NewChatPromptTemplate chat_template_source),
         Call (ChatPromptInvoke [(''domain'', ''cricket''), (''topic'', ''Dusra'')]),
         Call (Print (PChatPromptValue
           [SystemMessage ''You are a helpful cricket expert'',
            HumanMessage ''Explain in simple terms, what is Dusra'']))],
      raised = None\<rparr>"
  unfolding chatPromptTemplate_def py_defs
  by (simp add: chat_template_defs)

subsection \<open>One call at a time\<close>

lemma bind_assoc: "py_bind (py_bind m g) f tr = py_bind m (\<lambda>x. py_bind (g x) f) tr"
  by (simp add: py_bind_def split: prod.splits sum.splits)

lemma run_split:
  "run m = (case m [] of (tr, r) \<Rightarrow> \<lparr>trace = tr, raised = (case r of Inl e \<Rightarrow> Some e | Inr x \<Rightarrow> None)\<rparr>)"
  by (simp add: run_def split: prod.splits sum.splits)

lemma step_load_dotenv:
  "py_bind (load_dotenv w) f tr =
     (case raises w LoadDotenv of
        None \<Rightarrow> f () (tr @ [Call LoadDotenv])
      | Some e \<Rightarrow> (tr @ [Raise LoadDotenv e], Inl e))"
  by (simp add: py_defs split: option.splits)

lemma step_print: "py_bind (print v) f tr = f () (tr @ [Call (Print v)])"
  by (simp add: py_defs)

lemma last_print: "print v tr = (tr @ [Call (Print v)], Inr ())"
  by (simp add: py_defs)

lemma step_chat_model:
  "py_bind (ChatGoogleGenerativeAI w kw) f tr =
     (case raises w (NewChatModel kw) of
        None \<Rightarrow> f kw (tr @ [Call (NewChatModel kw)])
      | Some e \<Rightarrow> (tr @ [Raise (NewChatModel kw) e], Inl e))"
  by (simp add: py_defs split: option.splits)

lemma step_embeddings:
  "py_bind (GoogleGenerativeAIEmbeddings w kw) f tr =
     (case raises w (NewEmbeddings kw) of
        None \<Rightarrow> f kw (tr @ [Call (NewEmbeddings kw)])
      | Some e \<Rightarrow> (tr @ [Raise (NewEmbeddings kw) e], Inl e))"
  by (simp add: py_defs split: option.splits)

lemma step_model_invoke:
  "py_bind (model_invoke w m p) f tr =
     (case raises w (ChatInvoke m p) of
        None \<Rightarrow> f (chat_response w m p) (tr @ [Call (ChatInvoke m p)])
      | Some e \<Rightarrow> (tr @ [Raise (ChatInvoke m p) e], Inl e))"
  by (simp add: py_defs split: option.splits)

lemma step_embed_documents:
  "py_bind (embed_documents w m ds) f tr =
     (case raises w (EmbedDocuments m ds) of
        None \<Rightarrow> f (embed_response w m ds) (tr @ [Call (EmbedDocuments m ds)])
      | Some e \<Rightarrow> (tr @ [Raise (EmbedDocuments m ds) e], Inl e))"
  by (simp add: py_defs split: option.splits)

lemma step_header:
  "py_bind (st_header w s) f tr =
     (case raises w (StHeader s) of
        None \<Rightarrow> f () (tr @ [Call (StHeader s)])
      | Some e \<Rightarrow> (tr @ [Raise (StHeader s) e], Inl e))"
  by (simp add: py_defs split: option.splits)

lemma step_text_input:
  "py_bind (st_text_input w l) f tr =
     (case raises w (StTextInput l) of
        None \<Rightarrow> f (text_value w l) (tr @ [Call (StTextInput l)])
      | Some e \<Rightarrow> (tr @ [Raise (StTextInput l) e], Inl e))"
  by (simp add: py_defs split: option.splits)

lemma step_selectbox:
  "py_bind (st_selectbox w l opts) f tr =
     (case raises w (StSelectbox l opts) of
        None \<Rightarrow>
          if selected w l < length opts
          then f (opts ! selected w l) (tr @ [Call (StSelectbox l opts)])
          else (tr @ [Raise (StSelectbox l opts) (SdkError ''selectbox: no such option'')],
                Inl (SdkError ''selectbox: no such option''))
      | Some e \<Rightarrow> (tr @ [Raise (StSelectbox l opts) e], Inl e))"
  by (simp add: py_defs split: option.splits)

lemma step_button:
  "py_bind (st_button w l) f tr =
     (case raises w (StButton l) of
        None \<Rightarrow> f (clicked w l) (tr @ [Call (StButton l)])
      | Some e \<Rightarrow> (tr @ [Raise (StButton l) e], Inl e))"
  by (simp add: py_defs split: option.splits)

lemma last_write:
  "st_write w s tr =
     (case raises w (StWrite s) of
        None \<Rightarrow> (tr @ [Call (StWrite s)], Inr ())
      | Some e \<Rightarrow> (tr @ [Raise (StWrite s) e], Inl e))"
  by (simp add: py_defs split: option.splits)

lemma step_new_template:
  "py_bind (new_PromptTemplate template_text input_variables True) f tr =
     f parsed_template (tr @ [Call (NewPromptTemplate template_text input_variables True)])"
  by (simp add: py_bind_def perform_def new_PromptTemplate_def PromptTemplate_text)

lemma step_template_invoke:
  "py_bind (template_invoke parsed_template
      [(''paper_input'', p), (''style_input'', s), (''length_input'', l)]) f tr =
     f (summary_prompt p s l)
       (tr @ [Call (PromptInvoke [(''paper_input'', p), (''style_input'', s), (''length_input'', l)])])"
  by (simp add: py_bind_def perform_def template_invoke_def format_summary)

lemma step_chain:
  "py_bind (chain_invoke w pt m d) f tr =
     py_bind (template_invoke pt d) (\<lambda>prompt. py_bind (model_invoke w m prompt) f) tr"
  by (simp add: chain_invoke_def bind_assoc)

lemma last_pass: "py_pass tr = (tr, Inr ())"
  by (simp add: py_pass_def)

lemmas steps =
  run_split step_load_dotenv step_print last_print step_chat_model step_embeddings
  step_model_invoke step_embed_documents step_header step_text_input step_selectbox
  step_button last_write step_new_template step_template_invoke step_chain last_pass

subsection \<open>Runs that end normally\<close>

lemma googleGemini_ok:
  "raised (googleGeminiChatModelDemo w) = None \<Longrightarrow>
   trace (googleGeminiChatModelDemo w) =
     [Call LoadDotenv, Call (Print (PStr ''Started'')),
      Call (NewChatModel [(''model'', ''gemini-2.5-flash'')]),
      Call (ChatInvoke [(''model'', ''gemini-2.5-flash'')]
              ''Tell me a poem of 5 lines on Football''),
      Call (Print (PStr (chat_response w [(''model'', ''gemini-2.5-flash'')]
                           ''Tell me a poem of 5 lines on Football'')))]"
  unfolding googleGeminiChatModelDemo_def
  by (simp add: steps split: option.splits)

lemma embedd_docs_ok:
  "raised (embedd_docs w) = None \<Longrightarrow>
   trace (embedd_docs w) =
     [Call LoadDotenv, Call (Print (PStr ''Working on Embeddings'')),
      Call (NewEmbeddings [(''model'', ''models/gemini-embedding-001'')]),
      Call (EmbedDocuments [(''model'', ''models/gemini-embedding-001'')] documents),
      Call (Print (PStr (''Query Result: '' @
         py_str w (embed_response w [(''model'', ''models/gemini-embedding-001'')] documents))))]"
  unfolding embedd_docs_def
  by (simp add: steps split: option.splits)

lemma simpleUI_ok:
  "raised (simpleUIApplication w) = None \<Longrightarrow>
   trace (simpleUIApplication w) =
     [Call LoadDotenv, Call (StHeader ''Simple Gemini Chat Application''),
      Call (StTextInput ''Please enter your query for Gemini....''),
      Call (NewChatModel [(''model'', ''gemini-2.5-flash'')]),
      Call (StButton ''Go.....'')] @
     (if clicked w ''Go.....'' then
        [Call (ChatInvoke [(''model'', ''gemini-2.5-flash'')]
                 (text_value w ''Please enter your query for Gemini....'')),
         Call (StWrite (chat_response w [(''model'', ''gemini-2.5-flash'')]
                 (text_value w ''Please enter your query for Gemini....'')))]
      else [])"
  unfolding simpleUIApplication_def
  by (simp add: steps split: option.splits if_splits)

lemma dynamic_ok:
  "raised (dynamicPromptbasedApplication w) = None \<Longrightarrow>
   trace (dynamicPromptbasedApplication w) =
     [Call (NewPromptTemplate template_text input_variables True),
      Call LoadDotenv, Call (NewChatModel []), Call (StHeader ''Reasearch Tool''),
      Call (StSelectbox ''Select Research Paper Name'' paper_options),
      Call (StSelectbox ''Select Explanation Style'' style_options),
      Call (StSelectbox ''Select Explanation Length'' length_options),
      Call (StButton ''Summarize'')] @
     (if clicked w ''Summarize'' then
        [Call (PromptInvoke
           [(''paper_input'', paper_options ! selected w ''Select Research Paper Name''),
            (''style_input'', style_options ! selected w ''Select Explanation Style''),
            (''length_input'', length_options ! selected w ''Select Explanation Length'')]),
         Call (ChatInvoke []
           (summary_prompt (paper_options ! selected w ''Select Research Paper Name'')
              (style_options ! selected w ''Select Explanation Style'')
              (length_options ! selected w ''Select Explanation Length''))),
         Call (StWrite (chat_response w []
           (summary_prompt (paper_options ! selected w ''Select Research Paper Name'')
              (style_options ! selected w ''Select Explanation Style'')
              (length_options ! selected w ''Select Explanation Length''))))]
      else [])"
  unfolding dynamicPromptbasedApplication_def
  by (simp add: steps split: option.splits if_splits)

lemma ends_with_self: "ends_with (p @ r) r"
  by (simp add: ends_with_def)

lemma ends_with_refl: "ends_with r r"
  by (simp add: ends_with_def)

lemma googleGemini_shows:
  "raised (googleGeminiChatModelDemo w) = None \<Longrightarrow>
   shows_reply w (trace (googleGeminiChatModelDemo w))"
  by (simp add: googleGemini_ok ends_with_refl)

lemma embedd_docs_shows:
  "raised (embedd_docs w) = None \<Longrightarrow> shows_reply w (trace (embedd_docs w))"
  by (simp add: embedd_docs_ok ends_with_self del: append.simps)

lemma simpleUI_shows:
  "raised (simpleUIApplication w) = None \<Longrightarrow>
   shows_reply w (trace (simpleUIApplication w)) = clicked w ''Go.....''"
  by (simp add: simpleUI_ok ends_with_refl)

lemma dynamic_shows:
  "raised (dynamicPromptbasedApplication w) = None \<Longrightarrow>
   shows_reply w (trace (dynamicPromptbasedApplication w)) = clicked w ''Summarize''"
  by (simp add: dynamic_ok ends_with_refl)

lemma simpleUI_idle:
  "\<not> clicked w ''Go.....'' \<Longrightarrow> \<not> list_ex hosted_event (trace (simpleUIApplication w))"
  unfolding simpleUIApplication_def
  by (simp add: steps split: option.splits)

lemma dynamic_idle:
  "\<not> clicked w ''Summarize'' \<Longrightarrow>
   \<not> list_ex hosted_event (trace (dynamicPromptbasedApplication w))"
  unfolding dynamicPromptbasedApplication_def
  by (simp add: steps split: option.splits)

lemma dynamic_invokes:
  "raised (dynamicPromptbasedApplication w) = None \<Longrightarrow> clicked w ''Summarize'' \<Longrightarrow>
   list_ex is_prompt_invoke (trace (dynamicPromptbasedApplication w))"
  by (simp add: dynamic_ok)

subsection \<open>Runs in every world\<close>

lemma dynamic_template_calls:
  "list_all template_call_ok (trace (dynamicPromptbasedApplication w))"
  unfolding dynamicPromptbasedApplication_def
  by (simp add: steps split: option.splits) (simp add: input_variables_def)

lemma selectable_dictI:
  "i < length paper_options \<Longrightarrow> j < length style_options \<Longrightarrow> k < length length_options \<Longrightarrow>
   selectable_dict [(''paper_input'', paper_options ! i), (''style_input'', style_options ! j),
                    (''length_input'', length_options ! k)]"
  unfolding selectable_dict_def list_ex_iff
  using nth_mem by blast

lemma selectable_promptI:
  "i < length paper_options \<Longrightarrow> j < length style_options \<Longrightarrow> k < length length_options \<Longrightarrow>
   selectable_prompt
     (summary_prompt (paper_options ! i) (style_options ! j) (length_options ! k))"
  unfolding selectable_prompt_def list_ex_iff
  using nth_mem by blast

lemma dynamic_selectable:
  "list_all (\<lambda>ev. from_selectboxes (call_of ev)) (trace (dynamicPromptbasedApplication w))"
  unfolding dynamicPromptbasedApplication_def
  by (simp add: steps selectable_dictI selectable_promptI split: option.splits)

lemma googleGemini_dotenv:
  "dotenv_first False (trace (googleGeminiChatModelDemo w))"
  "list_all only_model_keyword (trace (googleGeminiChatModelDemo w))"
  unfolding googleGeminiChatModelDemo_def
  by (simp_all add: steps only_model_keyword_def split: option.splits)

lemma embedd_docs_dotenv:
  "dotenv_first False (trace (embedd_docs w))"
  "list_all only_model_keyword (trace (embedd_docs w))"
  unfolding embedd_docs_def
  by (simp_all add: steps only_model_keyword_def split: option.splits)

lemma simpleUI_dotenv:
  "dotenv_first False (trace (simpleUIApplication w))"
  "list_all only_model_keyword (trace (simpleUIApplication w))"
  unfolding simpleUIApplication_def
  by (simp_all add: steps only_model_keyword_def split: option.splits)

lemma dynamic_dotenv:
  "dotenv_first False (trace (dynamicPromptbasedApplication w))"
  "list_all only_model_keyword (trace (dynamicPromptbasedApplication w))"
  unfolding dynamicPromptbasedApplication_def
  by (simp_all add: steps only_model_keyword_def split: option.splits)

lemma clients_constructed:
  "raised (googleGeminiChatModelDemo w) = None \<Longrightarrow>
     list_ex constructs_client (trace (googleGeminiChatModelDemo w))"
  "raised (embedd_docs w) = None \<Longrightarrow> list_ex constructs_client (trace (embedd_docs w))"
  "raised (simpleUIApplication w) = None \<Longrightarrow>
     list_ex constructs_client (trace (simpleUIApplication w))"
  "raised (dynamicPromptbasedApplication w) = None \<Longrightarrow>
     list_ex constructs_client (trace (dynamicPromptbasedApplication w))"
  by (simp_all add: googleGemini_ok embedd_docs_ok simpleUI_ok dynamic_ok constructs_client_def)

subsection \<open>The sample worlds\<close>

lemma sample_world_simps:
  "raises (sample_world r) c = None"
  "chat_response (sample_world r) kw p = r"
  "py_str (sample_world r) (embed_response (sample_world r) kw ds) = r"
  "text_value (sample_world r) l = ''hello''"
  "selected (sample_world r) l = 0"
  "clicked (sample_world r) l"
  by (simp_all add: sample_world_def)

lemma options_nonempty:
  "paper_options \<noteq> []" "style_options \<noteq> []" "length_options \<noteq> []"
  by (simp_all add: paper_options_def style_options_def length_options_def)

lemma sample_runs:
  "raised (googleGeminiChatModelDemo (sample_world r)) = None"
  "raised (embedd_docs (sample_world r)) = None"
  "raised (simpleUIApplication (sample_world r)) = None"
  "raised (dynamicPromptbasedApplication (sample_world r)) = None"
  unfolding googleGeminiChatModelDemo_def embedd_docs_def simpleUIApplication_def
    dynamicPromptbasedApplication_def
  by (simp_all add: steps sample_world_simps options_nonempty)


section \<open>The claims\<close>

text \<open>
  C1, as amended.  Four of the five scripts call a hosted model and show its reply.
  Every run of \<open>googleGeminiChatModelDemo.py\<close> and of \<open>embedd_docs.py\<close> that ends
  normally contains the hosted call and a later \<open>print\<close> of its reply.  A run of
  \<open>simpleUIApplication.py\<close> or of \<open>dynamicPromptbasedApplication.py\<close> that ends normally
  shows the reply exactly when the button was pressed, and without the button no run of
  them calls the hosted model at all.  \<open>chatPromptTemplate.py\<close> never calls a hosted
  model and shows no reply: it only formats a prompt and prints it.
\<close>

theorem hosted_reply_shown:
  "(raised (googleGeminiChatModelDemo w) = None \<longrightarrow>
      shows_reply w (trace (googleGeminiChatModelDemo w)))
   \<and> (raised (embedd_docs w) = None \<longrightarrow> shows_reply w (trace (embedd_docs w)))
   \<and> (raised (simpleUIApplication w) = None \<longrightarrow>
      shows_reply w (trace (simpleUIApplication w)) = clicked w ''Go.....'')
   \<and> (raised (dynamicPromptbasedApplication w) = None \<longrightarrow>
      shows_reply w (trace (dynamicPromptbasedApplication w)) = clicked w ''Summarize'')
   \<and> (\<not> clicked w ''Go.....'' \<longrightarrow>
      \<not> list_ex hosted_event (trace (simpleUIApplication w)))
   \<and> (\<not> clicked w ''Summarize'' \<longrightarrow>
      \<not> list_ex hosted_event (trace (dynamicPromptbasedApplication w)))
   \<and> \<not> list_ex hosted_event (trace (chatPromptTemplate w))
   \<and> \<not> shows_reply w (trace (chatPromptTemplate w))"
proof -
  have "\<not> list_ex hosted_event (trace (chatPromptTemplate w))"
    and "\<not> shows_reply w (trace (chatPromptTemplate w))"
    by (simp_all add: chatPromptTemplate_run)
  then show ?thesis
    using googleGemini_shows [of w] embedd_docs_shows [of w] simpleUI_shows [of w]
      dynamic_shows [of w] simpleUI_idle [of w] dynamic_idle [of w]
    by blast
qed

text \<open>
  The sample world, where nothing fails and both buttons are pressed: all four runs end
  normally and show the reply.
\<close>

theorem hosted_reply_shown_witness:
  "raised (googleGeminiChatModelDemo (sample_world ''reply'')) = None
   \<and> shows_reply (sample_world ''reply'')
        (trace (googleGeminiChatModelDemo (sample_world ''reply'')))
   \<and> raised (embedd_docs (sample_world ''reply'')) = None
   \<and> shows_reply (sample_world ''reply'') (trace (embedd_docs (sample_world ''reply'')))
   \<and> raised (simpleUIApplication (sample_world ''reply'')) = None
   \<and> shows_reply (sample_world ''reply'') (trace (simpleUIApplication (sample_world ''reply'')))
   \<and> raised (dynamicPromptbasedApplication (sample_world ''reply'')) = None
   \<and> shows_reply (sample_world ''reply'')
        (trace (dynamicPromptbasedApplication (sample_world ''reply'')))"
  using hosted_reply_shown [of "sample_world ''reply''"]
  by (simp add: sample_runs sample_world_simps)

text \<open>
  C1 as stated fails for \<open>chatPromptTemplate.py\<close>: its run in the sample world contains
  no call to a hosted model and shows no reply.
\<close>

theorem template_script_calls_no_model:
  "\<not> list_ex hosted_event (trace (chatPromptTemplate (sample_world ''reply'')))
   \<and> \<not> shows_reply (sample_world ''reply'') (trace (chatPromptTemplate (sample_world ''reply'')))"
  by (simp add: chatPromptTemplate_run)




text \<open>
  C3.  In \<open>chatPromptTemplate.py\<close>, invoking \<open>chat_template\<close> with
  \<open>{'domain': 'cricket', 'topic': 'Dusra'}\<close> gives exactly two messages in this order: a
  system message with content \<open>You are a helpful cricket expert\<close> and a human message
  with content \<open>Explain in simple terms, what is Dusra\<close>.  The run of the script builds
  the template, invokes it and prints that value, and it is the same run in every world:
  nothing of the environment, the network or the user enters it.
\<close>

theorem chat_template_two_messages:
  "(case ChatPromptTemplate chat_template_source of
      Inl e \<Rightarrow> Inl e
    | Inr ct \<Rightarrow> format_chat_prompt ct [(''domain'', ''cricket''), (''topic'', ''Dusra'')]) =
   Inr [SystemMessage ''You are a helpful cricket expert'',
        HumanMessage ''Explain in simple terms, what is Dusra'']
   \<and> chatPromptTemplate w =
     \<lparr>trace =
        [Call (NewChatPromptTemplate chat_template_source),
         Call (ChatPromptInvoke [(''domain'', ''cricket''), (''topic'', ''Dusra'')]),
         Call (Print (PChatPromptValue
           [SystemMessage ''You are a helpful cricket expert'',
            HumanMessage ''Explain in simple terms, what is Dusra'']))],
      raised = None\<rparr>
   \<and> chatPromptTemplate w = chatPromptTemplate w'"
proof -
  have "(case ChatPromptTemplate chat_template_source of
      Inl e \<Rightarrow> Inl e
    | Inr ct \<Rightarrow> format_chat_prompt ct [(''domain'', ''cricket''), (''topic'', ''Dusra'')]) =
   Inr [SystemMessage ''You are a helpful cricket expert'',
        HumanMessage ''Explain in simple terms, what is Dusra'']"
    by (simp add: chat_template_defs)
  moreover have "chatPromptTemplate w = chatPromptTemplate w'"
    by (simp only: chatPromptTemplate_run)
  ultimately show ?thesis
    using chatPromptTemplate_run [of w] by simp
qed

text \<open>
  C5.  In \<open>dynamicPromptbasedApplication.py\<close> the placeholders of the template string
  are the declared \<open>input_variables\<close>, \<open>paper_input\<close>, \<open>style_input\<close> and
  \<open>length_input\<close>, so construction with \<open>validate_template=True\<close> succeeds; formatting
  a dict with exactly these three keys succeeds for all values; and in every run each
  invocation of the template is given exactly these three keys and neither the
  construction nor the invocation of the template raises.  A run that ends normally
  with the button pressed does invoke the template.
\<close>

theorem template_always_formats:
  "get_template_variables template_text = Inr input_variables
   \<and> input_variables = [''paper_input'', ''style_input'', ''length_input'']
   \<and> PromptTemplate template_text input_variables True = Inr parsed_template
   \<and> format_prompt parsed_template
        [(''paper_input'', p), (''style_input'', s), (''length_input'', l)] =
      Inr (summary_prompt p s l)
   \<and> list_all template_call_ok (trace (dynamicPromptbasedApplication w))
   \<and> (raised (dynamicPromptbasedApplication w) = None \<and> clicked w ''Summarize'' \<longrightarrow>
        list_ex is_prompt_invoke (trace (dynamicPromptbasedApplication w)))"
proof -
  have "get_template_variables template_text = Inr input_variables"
    by (simp add: get_template_variables_def parse_template_text)
       (simp add: parsed_template_def field_names_text field_names_lits input_variables_def)
  then show ?thesis
    using PromptTemplate_text format_summary [of p s l] dynamic_template_calls [of w]
      dynamic_invokes [of w]
    by (simp add: input_variables_def)
qed

text \<open>The sample world: the button is pressed and the template is invoked.\<close>

theorem template_always_formats_witness:
  "raised (dynamicPromptbasedApplication (sample_world ''reply'')) = None
   \<and> clicked (sample_world ''reply'') ''Summarize''
   \<and> list_all template_call_ok (trace (dynamicPromptbasedApplication (sample_world ''reply'')))
   \<and> list_ex is_prompt_invoke (trace (dynamicPromptbasedApplication (sample_world ''reply'')))"
  using template_always_formats [of _ _ _ "sample_world ''reply''"]
  by (simp add: sample_runs sample_world_simps)

text \<open>
  C6.  In every run of the four scripts that construct a client, each constructor call
  comes after a \<open>load_dotenv()\<close> that returned, and the only keyword ever given to a
  constructor is \<open>model\<close>: no credential is passed in the code.  Each of these scripts
  does construct a client in every run that ends normally; \<open>chatPromptTemplate.py\<close>
  constructs none.
\<close>

theorem dotenv_before_clients:
  "dotenv_first False (trace (googleGeminiChatModelDemo w))
   \<and> list_all only_model_keyword (trace (googleGeminiChatModelDemo w))
   \<and> (raised (googleGeminiChatModelDemo w) = None \<longrightarrow>
        list_ex constructs_client (trace (googleGeminiChatModelDemo w)))
   \<and> dotenv_first False (trace (embedd_docs w))
   \<and> list_all only_model_keyword (trace (embedd_docs w))
   \<and> (raised (embedd_docs w) = None \<longrightarrow> list_ex constructs_client (trace (embedd_docs w)))
   \<and> dotenv_first False (trace (simpleUIApplication w))
   \<and> list_all only_model_keyword (trace (simpleUIApplication w))
   \<and> (raised (simpleUIApplication w) = None \<longrightarrow>
        list_ex constructs_client (trace (simpleUIApplication w)))
   \<and> dotenv_first False (trace (dynamicPromptbasedApplication w))
   \<and> list_all only_model_keyword (trace (dynamicPromptbasedApplication w))
   \<and> (raised (dynamicPromptbasedApplication w) = None \<longrightarrow>
        list_ex constructs_client (trace (dynamicPromptbasedApplication w)))
   \<and> \<not> list_ex constructs_client (trace (chatPromptTemplate w))"
proof -
  have "\<not> list_ex constructs_client (trace (chatPromptTemplate w))"
    by (simp add: chatPromptTemplate_run constructs_client_def)
  then show ?thesis
    using googleGemini_dotenv [of w] embedd_docs_dotenv [of w] simpleUI_dotenv [of w]
      dynamic_dotenv [of w] clients_constructed [of w]
    by blast
qed

text \<open>The sample world: each of the four runs ends normally and constructs its client.\<close>

theorem dotenv_before_clients_witness:
  "raised (googleGeminiChatModelDemo (sample_world ''reply'')) = None
   \<and> list_ex constructs_client (trace (googleGeminiChatModelDemo (sample_world ''reply'')))
   \<and> dotenv_first False (trace (googleGeminiChatModelDemo (sample_world ''reply'')))
   \<and> raised (embedd_docs (sample_world ''reply'')) = None
   \<and> list_ex constructs_client (trace (embedd_docs (sample_world ''reply'')))
   \<and> dotenv_first False (trace (embedd_docs (sample_world ''reply'')))
   \<and> raised (simpleUIApplication (sample_world ''reply'')) = None
   \<and> list_ex constructs_client (trace (simpleUIApplication (sample_world ''reply'')))
   \<and> dotenv_first False (trace (simpleUIApplication (sample_world ''reply'')))
   \<and> raised (dynamicPromptbasedApplication (sample_world ''reply'')) = None
   \<and> list_ex constructs_client (trace (dynamicPromptbasedApplication (sample_world ''reply'')))
   \<and> dotenv_first False (trace (dynamicPromptbasedApplication (sample_world ''reply'')))"
  using dotenv_before_clients [of "sample_world ''reply''"]
  by (simp add: sample_runs)

text \<open>
  C7.  In every run of \<open>dynamicPromptbasedApplication.py\<close>, the dict given to the
  template has \<open>paper_input\<close> from the list of four paper titles, \<open>style_input\<close> from the
  list of four styles and \<open>length_input\<close> from the list of three lengths, and the prompt
  sent to the model is the template filled with such values; nothing else reaches the
  template.  A run that ends normally with the button pressed does invoke the template.
\<close>

theorem only_selectbox_values:
  "list_all (\<lambda>ev. from_selectboxes (call_of ev)) (trace (dynamicPromptbasedApplication w))
   \<and> length paper_options = 4 \<and> length style_options = 4 \<and> length length_options = 3
   \<and> (raised (dynamicPromptbasedApplication w) = None \<and> clicked w ''Summarize'' \<longrightarrow>
        list_ex is_prompt_invoke (trace (dynamicPromptbasedApplication w)))"
  using dynamic_selectable [of w] dynamic_invokes [of w]
  by (simp add: paper_options_def style_options_def length_options_def)

text \<open>The sample world: the first option of each select box reaches the template.\<close>

theorem only_selectbox_values_witness:
  "raised (dynamicPromptbasedApplication (sample_world ''reply'')) = None
   \<and> clicked (sample_world ''reply'') ''Summarize''
   \<and> list_ex is_prompt_invoke (trace (dynamicPromptbasedApplication (sample_world ''reply'')))
   \<and> list_all (\<lambda>ev. from_selectboxes (call_of ev))
        (trace (dynamicPromptbasedApplication (sample_world ''reply'')))"
  using only_selectbox_values [of "sample_world ''reply''"]
  by (simp add: sample_runs sample_world_simps)

end
